theory Spec2Isabelle
  imports Main "HOL-Library.Char_ord" "HOL-Library.List_Lexorder"
begin

section \<open>Diff\_to\_HTML.py: the report writer and the function-name extractor\<close>

text \<open>
  The development embeds \<^verbatim>\<open>extract_function_names\<close> and \<^verbatim>\<open>write_diff_to_html\<close> of
  \<^verbatim>\<open>src/Diff_to_HTML.py\<close>.

  \<^item> A Python \<^verbatim>\<open>str\<close> is a \<^typ>\<open>string\<close>. The model is exact for ASCII text, where a
    character, its code point and its UTF-8 byte coincide. The three literals of the
    source that contain the Turkish dotless i are written with its UTF-8 bytes, as they
    reach the file opened with \<^verbatim>\<open>encoding='utf-8'\<close>. Bytes from 128 on are ordinary
    characters for the model; Python's non-ASCII white space, line boundaries and digits
    are outside it.
  \<^item> A Python \<^verbatim>\<open>int\<close> is an \<^typ>\<open>int\<close>; the interpreter's optional limit on the
    number of digits converted between \<^verbatim>\<open>int\<close> and \<^verbatim>\<open>str\<close> is not modelled.
  \<^item> The output file is the list of the strings passed to \<^verbatim>\<open>f.write\<close>, in order.
    Opening and writing are assumed not to fail.
  \<^item> An exception is a value of \<open>exn\<close>; a function that may raise returns \<open>exn + 'a\<close>.
  \<^item> The global \<^verbatim>\<open>oneArgument\<close> is a parameter, and so is the order in which the
    interpreter iterates over a \<^verbatim>\<open>set\<close> of strings (it depends on the hash seed of the
    process).
\<close>

subsection \<open>Python built-ins used by the source\<close>

datatype exn =
    ValueError string  \<comment> \<open>raised by \<^verbatim>\<open>int\<close>; carries its message\<close>
  | IndexError
  | AttributeError

text \<open>\<^verbatim>\<open>line.startswith(p)\<close>\<close>

definition startswith :: "string \<Rightarrow> string \<Rightarrow> bool" where
  "startswith line p = (take (length p) line = p)"

text \<open>\<^verbatim>\<open>s.split(sep)\<close> with an explicit one-character separator: every occurrence
  cuts, empty pieces are kept, and there is always at least one piece.\<close>

fun split :: "char \<Rightarrow> string \<Rightarrow> string list" where
  "split sep [] = [[]]"
| "split sep (c # cs) =
     (if c = sep then [] # split sep cs
      else (c # hd (split sep cs)) # tl (split sep cs))"

text \<open>\<^verbatim>\<open>xs[i]\<close> for a non-negative literal index.\<close>

definition getitem :: "'a list \<Rightarrow> nat \<Rightarrow> exn + 'a" where
  "getitem xs i = (if i < length xs then Inr (xs ! i) else Inl IndexError)"

text \<open>\<^verbatim>\<open>str.isspace\<close> on one ASCII character: tab, the line breaks, the four
  separators 0x1C to 0x1F, and the space.\<close>

definition isspace :: "char \<Rightarrow> bool" where
  "isspace c = (of_char c \<in> {9, 10, 11, 12, 13, 28, 29, 30, 31, 32 :: nat})"

text \<open>\<^verbatim>\<open>s.strip()\<close>\<close>

definition strip :: "string \<Rightarrow> string" where
  "strip s = rev (dropWhile isspace (rev (dropWhile isspace s)))"

text \<open>\<^verbatim>\<open>s.splitlines()\<close>: the ASCII line boundaries are LF, CR, CR LF (one boundary),
  VT, FF and the separators 0x1C, 0x1D, 0x1E. The boundaries are dropped, and a
  boundary at the very end opens no further line.\<close>

definition is_linebreak :: "char \<Rightarrow> bool" where
  "is_linebreak c = (of_char c \<in> {10, 11, 12, 13, 28, 29, 30 :: nat})"

definition cons_line :: "char \<Rightarrow> string list \<Rightarrow> string list" where
  "cons_line c ls = (case ls of [] \<Rightarrow> [[c]] | l # ls' \<Rightarrow> (c # l) # ls')"

fun splitlines :: "string \<Rightarrow> string list" where
  "splitlines [] = []"
| "splitlines [c] = (if is_linebreak c then [[]] else [[c]])"
| "splitlines (c # d # cs) =
     (if c = CHR 0x0D \<and> d = CHR 0x0A then [] # splitlines cs
      else if is_linebreak c then [] # splitlines (d # cs)
      else cons_line c (splitlines (d # cs)))"

text \<open>\<^verbatim>\<open>int(s)\<close> in base ten, for an ASCII string: white space around the literal is
  dropped, one sign may lead, then come decimal digits, where single underscores may
  stand between two digits. \<open>None\<close> is the \<^verbatim>\<open>ValueError\<close>. The white space that
  \<^verbatim>\<open>int\<close> skips around an ASCII literal is tab, LF, VT, FF, CR and the space only:
  the separators 0x1C to 0x1F, which \<^verbatim>\<open>str.isspace\<close> accepts, make it raise.\<close>

definition int_space :: "char \<Rightarrow> bool" where
  "int_space c = (of_char c \<in> {9, 10, 11, 12, 13, 32 :: nat})"

definition isdigit :: "char \<Rightarrow> bool" where
  "isdigit c = (48 \<le> (of_char c :: nat) \<and> (of_char c :: nat) \<le> 57)"

definition digit_val :: "char \<Rightarrow> int" where
  "digit_val c = int (of_char c) - 48"

fun parse_digits :: "int \<Rightarrow> string \<Rightarrow> int option" where
  "parse_digits acc [] = Some acc"
| "parse_digits acc [c] = (if isdigit c then Some (10 * acc + digit_val c) else None)"
| "parse_digits acc (c # d # cs) =
     (if isdigit c then parse_digits (10 * acc + digit_val c) (d # cs)
      else if c = CHR ''_'' \<and> isdigit d then parse_digits acc (d # cs)
      else None)"

definition py_int :: "string \<Rightarrow> int option" where
  "py_int s =
     (let t = rev (dropWhile int_space (rev (dropWhile int_space s)));
          neg = startswith t ''-'';
          u = (if startswith t ''-'' \<or> startswith t ''+'' then drop 1 t else t)
      in case u of
           [] \<Rightarrow> None
         | c # r \<Rightarrow>
             if isdigit c
             then map_option (\<lambda>v. if neg then - v else v) (parse_digits (digit_val c) r)
             else None)"

text \<open>
  The message of that \<^verbatim>\<open>ValueError\<close>: the format is
  \<^verbatim>\<open>invalid literal for int() with base %d: %.200R\<close>, that is, the \<^verbatim>\<open>repr\<close> of the
  string cut after 200 characters. The \<^verbatim>\<open>repr\<close> of an ASCII string: between double
  quotes when the string has a single quote and no double quote, else between single
  quotes; the quote in use and the backslash are escaped with a backslash; tab, LF and
  CR are written \<^verbatim>\<open>\t\<close>, \<^verbatim>\<open>\n\<close>, \<^verbatim>\<open>\r\<close>; another character below 0x20, and 0x7F,
  is written \<^verbatim>\<open>\xhh\<close> with two lower-case hexadecimal digits.
\<close>

definition repr_char :: "char \<Rightarrow> char \<Rightarrow> string" where
  "repr_char quote c =
     (if c = quote \<or> c = CHR 0x5C then [CHR 0x5C, c]
      else if c = CHR 0x09 then [CHR 0x5C, CHR ''t'']
      else if c = CHR 0x0A then [CHR 0x5C, CHR ''n'']
      else if c = CHR 0x0D then [CHR 0x5C, CHR ''r'']
      else if (of_char c :: nat) < 32 \<or> c = CHR 0x7F then
        [CHR 0x5C, CHR ''x'',
         ''0123456789abcdef'' ! (of_char c div 16), ''0123456789abcdef'' ! (of_char c mod 16)]
      else [c])"

definition repr :: "string \<Rightarrow> string" where
  "repr s =
     (let quote = (if CHR 0x27 \<in> set s \<and> CHR 0x22 \<notin> set s then CHR 0x22 else CHR 0x27)
      in quote # concat (map (repr_char quote) s) @ [quote])"

definition int_error_message :: "string \<Rightarrow> string" where
  "int_error_message s = ''invalid literal for int() with base 10: '' @ take 200 (repr s)"

text \<open>\<^verbatim>\<open>str(i)\<close>, which is also how an f-string formats an \<^verbatim>\<open>int\<close>.\<close>

fun str_nat :: "nat \<Rightarrow> string" where
  "str_nat n =
     (if n < 10 then [''0123456789'' ! n]
      else str_nat (n div 10) @ [''0123456789'' ! (n mod 10)])"

declare str_nat.simps [simp del]

definition str_int :: "int \<Rightarrow> string" where
  "str_int i = (if i < 0 then CHR ''-'' # str_nat (nat (- i)) else str_nat (nat i))"

text \<open>\<^verbatim>\<open>sep.join(xs)\<close>\<close>

fun join :: "string \<Rightarrow> string list \<Rightarrow> string" where
  "join sep [] = []"
| "join sep [x] = x"
| "join sep (x # y # ys) = x @ sep @ join sep (y # ys)"

text \<open>\<^verbatim>\<open>html.escape(s)\<close> with its default \<^verbatim>\<open>quote=True\<close>: five calls of
  \<^verbatim>\<open>str.replace\<close>, the ampersand first.\<close>

definition replace :: "char \<Rightarrow> string \<Rightarrow> string \<Rightarrow> string" where
  "replace c r s = concat (map (\<lambda>x. if x = c then r else [x]) s)"

definition html_escape :: "string \<Rightarrow> string" where
  "html_escape s =
     replace (CHR 0x27) ''&#x27;''
       (replace (CHR 0x22) ''&quot;''
         (replace CHR ''>'' ''&gt;''
           (replace CHR ''<'' ''&lt;''
             (replace CHR ''&'' ''&amp;'' s))))"

subsection \<open>\<^verbatim>\<open>extract_function_names\<close>\<close>

text \<open>
  The pattern is the raw string
  \<^verbatim>\<open>^@@.*@@\s*(def|function)\\s*([a-zA-Z_][a-zA-Z0-9_]*)\<close>.
  In a raw string \<^verbatim>\<open>\\\<close> is the regular expression for one backslash character, and
  the \<^verbatim>\<open>s*\<close> after it is a run of the letter s. The matcher below follows the
  backtracking order of \<^verbatim>\<open>re\<close>: a starred item first takes as much as it can
  and gives characters back one at a time; the result is group 2 of the first way
  that matches.
\<close>

definition ident_start :: "char \<Rightarrow> bool" where
  "ident_start c =
     ((97 \<le> (of_char c :: nat) \<and> (of_char c :: nat) \<le> 122)
      \<or> (65 \<le> (of_char c :: nat) \<and> (of_char c :: nat) \<le> 90)
      \<or> c = CHR ''_'')"

definition ident_char :: "char \<Rightarrow> bool" where
  "ident_char c = (ident_start c \<or> isdigit c)"

text \<open>\<^verbatim>\<open>([a-zA-Z_][a-zA-Z0-9_]*)\<close> at the end of the pattern.\<close>

definition match_ident :: "string \<Rightarrow> string option" where
  "match_ident s =
     (case s of
        [] \<Rightarrow> None
      | c # cs \<Rightarrow> if ident_start c then Some (c # takeWhile ident_char cs) else None)"

text \<open>\<^verbatim>\<open>s*\<close> and then the identifier.\<close>

fun match_s_ident :: "string \<Rightarrow> string option" where
  "match_s_ident [] = match_ident []"
| "match_s_ident (c # cs) =
     (case (if c = CHR ''s'' then match_s_ident cs else None) of
        Some g \<Rightarrow> Some g
      | None \<Rightarrow> match_ident (c # cs))"

text \<open>The backslash character and then the rest.\<close>

definition match_backslash :: "string \<Rightarrow> string option" where
  "match_backslash s =
     (case s of
        [] \<Rightarrow> None
      | c # cs \<Rightarrow> if c = CHR 0x5C then match_s_ident cs else None)"

text \<open>\<^verbatim>\<open>(def|function)\<close>: the first alternative, and the second when the rest
  fails after the first.\<close>

definition match_keyword :: "string \<Rightarrow> string option" where
  "match_keyword s =
     (case (if startswith s ''def'' then match_backslash (drop 3 s) else None) of
        Some g \<Rightarrow> Some g
      | None \<Rightarrow> if startswith s ''function'' then match_backslash (drop 8 s) else None)"

text \<open>\<^verbatim>\<open>\s*\<close> and then the keyword.\<close>

fun match_ws_keyword :: "string \<Rightarrow> string option" where
  "match_ws_keyword [] = match_keyword []"
| "match_ws_keyword (c # cs) =
     (case (if isspace c then match_ws_keyword cs else None) of
        Some g \<Rightarrow> Some g
      | None \<Rightarrow> match_keyword (c # cs))"

text \<open>The second \<^verbatim>\<open>@@\<close> and then the rest.\<close>

definition match_at_at :: "string \<Rightarrow> string option" where
  "match_at_at s = (if startswith s ''@@'' then match_ws_keyword (drop 2 s) else None)"

text \<open>\<^verbatim>\<open>.*\<close> (any character but the line feed) and then the second \<^verbatim>\<open>@@\<close>.\<close>

fun match_dot_star :: "string \<Rightarrow> string option" where
  "match_dot_star [] = match_at_at []"
| "match_dot_star (c # cs) =
     (case (if c \<noteq> CHR 0x0A then match_dot_star cs else None) of
        Some g \<Rightarrow> Some g
      | None \<Rightarrow> match_at_at (c # cs))"

text \<open>\<^verbatim>\<open>pattern.match(line)\<close>: \<open>None\<close> when there is no match, else \<^verbatim>\<open>group(2)\<close>.\<close>

definition pattern_match :: "string \<Rightarrow> string option" where
  "pattern_match line = (if startswith line ''@@'' then match_dot_star (drop 2 line) else None)"

definition add_match :: "string \<Rightarrow> string set \<Rightarrow> string set" where
  "add_match line function_names =
     (case pattern_match line of
        Some g \<Rightarrow> insert g function_names
      | None \<Rightarrow> function_names)"

definition extract_function_names :: "string \<Rightarrow> string set" where
  "extract_function_names diff = fold add_match (splitlines diff) {}"

subsection \<open>\<^verbatim>\<open>write_diff_to_html\<close>\<close>

text \<open>One element of \<^verbatim>\<open>diffs\<close>: the dictionary built by the main program.\<close>

record diff_data =
  diff :: string
  file_name :: string
  file_status :: string
  file_content :: string

text \<open>The nine writes before the loop over \<^verbatim>\<open>diffs\<close> (lines 46 to 54).\<close>

definition page_head :: \<open>string list\<close> where
  \<open>page_head =
     [''<html><head><style>'',
      ''body { font-family: Courier, monospace; }'',
      ''.line-num { display: inline-block; width: 40px; }'',
      ''.added { background-color: #eaffea; color: green; }'',
      ''.removed { background-color: #ffecec; color: red; }'',
      ''table { width: 100%; border-collapse: collapse; }'',
      ''td, th { border: 1px solid #ddd; padding: 8px; vertical-align: top; white-space: pre-wrap; }'',
      ''th { background-color: #f2f2f2; }'',
      ''</style></head><body>'']\<close>

text \<open>The UTF-8 bytes of the dotless i of the Turkish literals.\<close>

definition dotless_i :: string where
  "dotless_i = [CHR 0xC4, CHR 0xB1]"

text \<open>Line 62.\<close>

definition file_heading :: "string \<Rightarrow> string" where
  "file_heading name =
     ''<h2>'' @ html_escape name @ '' Dosyas'' @ dotless_i @ ''ndaki Farkl'' @ dotless_i
       @ ''l'' @ dotless_i @ ''klar:</h2>''"

text \<open>The two loops over \<^verbatim>\<open>enumerate(file_content.splitlines(), 1)\<close>: lines 68 and 69
  (the same text as lines 114 and 115) and lines 74 and 75 (the same text as lines 120
  and 121).\<close>

fun write_plus_lines :: \<open>int \<Rightarrow> string list \<Rightarrow> string list \<Rightarrow> string list\<close> where
  \<open>write_plus_lines i [] f = f\<close>
| \<open>write_plus_lines i (line # ls) f =
     write_plus_lines (i + 1) ls
       (f @ [''<span class="line-num">'' @ str_int i @ ''</span> + ''
               @ html_escape (strip line) @ [CHR 0x0A]])\<close>

fun write_minus_lines :: \<open>int \<Rightarrow> string list \<Rightarrow> string list \<Rightarrow> string list\<close> where
  \<open>write_minus_lines i [] f = f\<close>
| \<open>write_minus_lines i (line # ls) f =
     write_minus_lines (i + 1) ls
       (f @ [''<span class="line-num">'' @ str_int i @ ''</span> - ''
               @ html_escape (strip line) @ [CHR 0x0A]])\<close>

text \<open>The block headed \<^verbatim>\<open>File added\<close>: lines 66 to 70, and again lines 112 to 116.\<close>

definition write_file_added :: \<open>diff_data \<Rightarrow> string list \<Rightarrow> string list\<close> where
  \<open>write_file_added d f =
     write_plus_lines 1 (splitlines (file_content d))
       (f @ [''<p><b>File added: '' @ html_escape (file_name d) @ ''</b></p>'',
             ''<table><tr><th>New Version</th></tr><tr><td class="added"><pre>''])
     @ [''</pre></td></tr></table>'']\<close>

text \<open>The block headed \<^verbatim>\<open>File deleted\<close>: lines 72 to 76, and again lines 118 to 122.\<close>

definition write_file_deleted :: \<open>diff_data \<Rightarrow> string list \<Rightarrow> string list\<close> where
  \<open>write_file_deleted d f =
     write_minus_lines 1 (splitlines (file_content d))
       (f @ [''<p><b>File deleted: '' @ html_escape (file_name d) @ ''</b></p>'',
             ''<table><tr><th>Old Version</th></tr><tr><td class="removed"><pre>''])
     @ [''</pre></td></tr></table>'']\<close>

text \<open>The filter of lines 79 and 125.\<close>

definition is_preamble :: "string \<Rightarrow> bool" where
  "is_preamble line =
     (startswith line ''diff --git'' \<or> startswith line ''index ''
      \<or> startswith line ''--- '' \<or> startswith line ''+++ '')"

text \<open>Lines 93 to 95 (and 139 to 141): \<^verbatim>\<open>int(p.split(',')[0][1:])\<close> for one element
  \<^verbatim>\<open>p\<close> of \<^verbatim>\<open>parts\<close>, and the two start numbers of a header line.\<close>

definition start_number :: "string \<Rightarrow> exn + int" where
  "start_number p =
     (case getitem (split CHR '','' p) 0 of
        Inl e \<Rightarrow> Inl e
      | Inr w \<Rightarrow>
          (case py_int (drop 1 w) of
             None \<Rightarrow> Inl (ValueError (int_error_message (drop 1 w)))
           | Some v \<Rightarrow> Inr v))"

definition parse_header :: "string \<Rightarrow> exn + int \<times> int" where
  "parse_header line =
     (let parts = split CHR '' '' line
      in case getitem parts 1 of
           Inl e \<Rightarrow> Inl e
         | Inr p1 \<Rightarrow>
             (case start_number p1 of
                Inl e \<Rightarrow> Inl e
              | Inr old_line_num \<Rightarrow>
                  (case getitem parts 2 of
                     Inl e \<Rightarrow> Inl e
                   | Inr p2 \<Rightarrow>
                       (case start_number p2 of
                          Inl e \<Rightarrow> Inl e
                        | Inr new_line_num \<Rightarrow> Inr (old_line_num, new_line_num)))))"

text \<open>
  The body of the loop of lines 91 to 106 (single-commit branch): from the line and the
  two counters to the new counters and the string written, or to the exception.
  In the last branch the f-string calls \<^verbatim>\<open>html.escape(new_line_num)\<close> on an \<^verbatim>\<open>int\<close>,
  which has no \<^verbatim>\<open>replace\<close>: the f-string raises \<^verbatim>\<open>AttributeError\<close> before anything
  is written.
\<close>

definition line_step :: \<open>string \<Rightarrow> int \<times> int \<Rightarrow> exn + (int \<times> int) \<times> string\<close> where
  \<open>line_step line c =
     (case c of (old_line_num, new_line_num) \<Rightarrow>
        if startswith line ''@@'' then
          (case parse_header line of
             Inl e \<Rightarrow> Inl e
           | Inr c' \<Rightarrow> Inr (c', ''<tr><td colspan="2"><hr></td></tr>''))
        else if startswith line ''+'' then
          Inr ((old_line_num + 1, new_line_num),
               ''<tr><td class="removed"><pre><span class="line-num">'' @ str_int old_line_num
                 @ ''</span> - '' @ html_escape (drop 1 line) @ ''</pre></td><td></td></tr>'')
        else if startswith line ''-'' then
          Inr ((old_line_num, new_line_num + 1),
               ''<tr><td></td><td class="added"><pre><span class="line-num">''
                 @ str_int new_line_num @ ''</span> + '' @ html_escape (drop 1 line)
                 @ ''</pre></td></tr>'')
        else Inl AttributeError)\<close>

text \<open>The loop of lines 91 to 106: the counters after the last line, or the exception
  that left the loop, and the file as written so far.\<close>

fun write_lines ::
  "string list \<Rightarrow> int \<times> int \<Rightarrow> string list \<Rightarrow> (exn + int \<times> int) \<times> string list" where
  "write_lines [] c f = (Inr c, f)"
| "write_lines (line # ls) c f =
     (case line_step line c of
        Inl e \<Rightarrow> (Inl e, f)
      | Inr (c', row) \<Rightarrow> write_lines ls c' (f @ [row]))"

text \<open>Line 80 (and 126): \<^verbatim>\<open>sum(1 for line in lines if ...)\<close>.\<close>

definition difference_count :: "string list \<Rightarrow> int" where
  "difference_count lines =
     sum_list (map (\<lambda>line. 1) (filter (\<lambda>line. startswith line ''-'' \<or> startswith line ''+'') lines))"

text \<open>Lines 83 and 84 (and 129 and 130).\<close>

definition count_paragraph :: "int \<Rightarrow> string" where
  "count_paragraph n =
     ''<p><b>Farkl'' @ dotless_i @ ''l'' @ dotless_i @ ''k Say'' @ dotless_i @ ''s''
       @ dotless_i @ '': '' @ str_int n @ ''</b></p>''"

definition functions_paragraph :: "string list \<Rightarrow> string" where
  "functions_paragraph names =
     ''<p><b>Farkl'' @ dotless_i @ ''l'' @ dotless_i @ ''k Olan Fonksiyonlar: ''
       @ join '', '' names @ ''</b></p>''"

text \<open>Lines 78 to 108, the branch of an edited file when \<^verbatim>\<open>oneArgument\<close> is true.
  \<open>iter\<close> is the order in which the set is iterated by \<^verbatim>\<open>join\<close>.\<close>

definition write_edited ::
  "(string set \<Rightarrow> string list) \<Rightarrow> string \<Rightarrow> string list \<Rightarrow> exn option \<times> string list" where
  "write_edited iter diff_text f =
     (let lines = filter (\<lambda>line. \<not> is_preamble line) (splitlines diff_text);
          function_names = extract_function_names diff_text;
          f1 = f @ [count_paragraph (difference_count lines),
                    functions_paragraph (iter function_names),
                    ''<table><tr><th>Old Version</th><th>New Version</th></tr>'']
      in case write_lines lines (0, 0) f1 of
           (Inl e, f2) \<Rightarrow> (Some e, f2)
         | (Inr c, f2) \<Rightarrow> (None, f2 @ [''</table>'']))"

text \<open>
  Lines 124 to 154, the branch of an edited file when \<^verbatim>\<open>oneArgument\<close> is false,
  transcribed on its own from its own lines: the loop body (lines 138 to 152), the loop
  (line 137) and the branch.
\<close>

definition line_step_two :: \<open>string \<Rightarrow> int \<times> int \<Rightarrow> exn + (int \<times> int) \<times> string\<close> where
  \<open>line_step_two line c =
     (case c of (old_line_num, new_line_num) \<Rightarrow>
        if startswith line ''@@'' then
          (let parts = split CHR '' '' line
           in case getitem parts 1 of
                Inl e \<Rightarrow> Inl e
              | Inr p1 \<Rightarrow>
                  (case start_number p1 of
                     Inl e \<Rightarrow> Inl e
                   | Inr old_start \<Rightarrow>
                       (case getitem parts 2 of
                          Inl e \<Rightarrow> Inl e
                        | Inr p2 \<Rightarrow>
                            (case start_number p2 of
                               Inl e \<Rightarrow> Inl e
                             | Inr new_start \<Rightarrow>
                                 Inr ((old_start, new_start),
                                      ''<tr><td colspan="2"><hr></td></tr>'')))))
        else if startswith line ''+'' then
          Inr ((old_line_num + 1, new_line_num),
               ''<tr><td class="removed"><pre><span class="line-num">'' @ str_int old_line_num
                 @ ''</span> - '' @ html_escape (drop 1 line) @ ''</pre></td><td></td></tr>'')
        else if startswith line ''-'' then
          Inr ((old_line_num, new_line_num + 1),
               ''<tr><td></td><td class="added"><pre><span class="line-num">''
                 @ str_int new_line_num @ ''</span> + '' @ html_escape (drop 1 line)
                 @ ''</pre></td></tr>'')
        else Inl AttributeError)\<close>

fun write_lines_two ::
  "string list \<Rightarrow> int \<times> int \<Rightarrow> string list \<Rightarrow> (exn + int \<times> int) \<times> string list" where
  "write_lines_two [] c f = (Inr c, f)"
| "write_lines_two (line # ls) c f =
     (case line_step_two line c of
        Inl e \<Rightarrow> (Inl e, f)
      | Inr (c', row) \<Rightarrow> write_lines_two ls c' (f @ [row]))"

definition write_edited_two ::
  "(string set \<Rightarrow> string list) \<Rightarrow> string \<Rightarrow> string list \<Rightarrow> exn option \<times> string list" where
  "write_edited_two iter diff_text f =
     (let lines = filter (\<lambda>line. \<not> (startswith line ''diff --git'' \<or> startswith line ''index ''
                                     \<or> startswith line ''--- '' \<or> startswith line ''+++ ''))
                    (splitlines diff_text);
          difference_count =
            sum_list (map (\<lambda>line. 1)
              (filter (\<lambda>line. startswith line ''-'' \<or> startswith line ''+'') lines));
          function_names = extract_function_names diff_text;
          f1 = f @ [''<p><b>Farkl'' @ dotless_i @ ''l'' @ dotless_i @ ''k Say'' @ dotless_i
                      @ ''s'' @ dotless_i @ '': '' @ str_int difference_count @ ''</b></p>'',
                    ''<p><b>Farkl'' @ dotless_i @ ''l'' @ dotless_i @ ''k Olan Fonksiyonlar: ''
                      @ join '', '' (iter function_names) @ ''</b></p>'',
                    ''<table><tr><th>Old Version</th><th>New Version</th></tr>'']
      in case write_lines_two lines (0, 0) f1 of
           (Inl e, f2) \<Rightarrow> (Some e, f2)
         | (Inr c, f2) \<Rightarrow> (None, f2 @ [''</table>'']))"

text \<open>The body of the loop over \<^verbatim>\<open>diffs\<close> (lines 57 to 154) for one element.\<close>

definition write_entry ::
  "(string set \<Rightarrow> string list) \<Rightarrow> bool \<Rightarrow> diff_data \<Rightarrow> string list
     \<Rightarrow> exn option \<times> string list" where
  "write_entry iter oneArgument d f =
     (let f0 = f @ [file_heading (file_name d)]
      in if oneArgument then
           (if file_status d = ''A'' then (None, write_file_added d f0)
            else if file_status d = ''D'' then (None, write_file_deleted d f0)
            else write_edited iter (diff d) f0)
         else
           (if file_status d = ''D'' then (None, write_file_added d f0)
            else if file_status d = ''A'' then (None, write_file_deleted d f0)
            else write_edited_two iter (diff d) f0))"

text \<open>The loop of line 56. An exception leaves it: there is no handler inside.\<close>

fun write_entries ::
  "(string set \<Rightarrow> string list) \<Rightarrow> bool \<Rightarrow> diff_data list \<Rightarrow> string list
     \<Rightarrow> exn option \<times> string list" where
  "write_entries iter oneArgument [] f = (None, f)"
| "write_entries iter oneArgument (d # ds) f =
     (case write_entry iter oneArgument d f of
        (Some e, f') \<Rightarrow> (Some e, f')
      | (None, f') \<Rightarrow> write_entries iter oneArgument ds f')"

text \<open>
  The function (lines 44 to 158): the exception caught by the handler of line 157, whose
  message is printed, if any, and the content of the output file. The function itself
  returns \<^verbatim>\<open>None\<close> either way.
\<close>

definition write_diff_to_html ::
  "(string set \<Rightarrow> string list) \<Rightarrow> bool \<Rightarrow> diff_data list \<Rightarrow> exn option \<times> string list" where
  "write_diff_to_html iter oneArgument diffs =
     (case write_entries iter oneArgument diffs page_head of
        (Some e, f) \<Rightarrow> (Some e, f)
      | (None, f) \<Rightarrow> (None, f @ [''</body></html>'']))"

section \<open>Auxiliary facts\<close>

subsection \<open>The two transcriptions of the edited-file branch\<close>

lemma line_step_two_eq: "line_step_two line c = line_step line c"
  by (simp add: line_step_two_def line_step_def parse_header_def Let_def
      split: prod.splits sum.splits)

lemma write_lines_two_eq: "write_lines_two ls c f = write_lines ls c f"
  by (induction ls arbitrary: c f) (simp_all add: line_step_two_eq split: sum.splits prod.splits)

lemma write_edited_two_eq: "write_edited_two iter t f = write_edited iter t f"
  by (simp add: write_edited_two_def write_edited_def write_lines_two_eq is_preamble_def
      difference_count_def count_paragraph_def functions_paragraph_def Let_def)

subsection \<open>The loop over the lines\<close>

lemma write_lines_append:
  "write_lines (xs @ ys) c f =
     (case write_lines xs c f of
        (Inl e, f') \<Rightarrow> (Inl e, f')
      | (Inr c', f') \<Rightarrow> write_lines ys c' f')"
  by (induction xs arbitrary: c f) (simp_all split: sum.splits prod.splits)


lemma line_step_header:
  assumes "startswith line ''@@''"
  shows \<open>line_step line c =
           (case parse_header line of
              Inl e \<Rightarrow> Inl e
            | Inr c' \<Rightarrow> Inr (c', ''<tr><td colspan="2"><hr></td></tr>''))\<close>
  using assms by (simp add: line_step_def split: prod.splits)

lemma write_lines_same_step:
  assumes "\<And>c. line_step x c = line_step y c"
  shows "write_lines (pre @ x # post) c0 f = write_lines (pre @ y # post) c0 f"
  by (simp add: write_lines_append assms split: prod.splits sum.splits)

lemma wl_cases:
  assumes "wl = write_lines \<or> wl = write_lines_two"
  shows "wl = write_lines"
  using assms by (auto simp: write_lines_two_eq fun_eq_iff)

lemma write_lines_snoc:
  assumes "write_lines pre c0 f0 = (Inr c, f)"
  shows "write_lines (pre @ [line]) c0 f0 =
           (case line_step line c of
              Inl e \<Rightarrow> (Inl e, f)
            | Inr (c', row) \<Rightarrow> (Inr c', f @ [row]))"
  using assms by (simp add: write_lines_append split: sum.splits prod.splits)

lemma write_lines_marked:
  assumes "\<forall>l \<in> set ls. startswith l ''+'' \<or> startswith l ''-''"
  shows "\<exists>rows. write_lines ls (old_line_num, new_line_num) f =
            (Inr (old_line_num + int (length (filter (\<lambda>l. startswith l ''+'') ls)),
                  new_line_num + int (length (filter (\<lambda>l. startswith l ''-'') ls))),
             f @ rows)
          \<and> length rows = length ls"
  using assms
proof (induction ls arbitrary: old_line_num new_line_num f)
  case Nil
  show ?case by simp
next
  case (Cons l ls)
  from Cons.prems have rest: "\<forall>l \<in> set ls. startswith l ''+'' \<or> startswith l ''-''"
    and l: "startswith l ''+'' \<or> startswith l ''-''" by simp_all
  from l show ?case
  proof
    assume p: "startswith l ''+''"
    then have np: "\<not> startswith l ''@@''" "\<not> startswith l ''-''"
      by (cases l; auto simp: startswith_def)+
    obtain row where step:
      "line_step l (old_line_num, new_line_num) = Inr ((old_line_num + 1, new_line_num), row)"
      using p np by (simp add: line_step_def)
    from Cons.IH [OF rest, of "old_line_num + 1" new_line_num "f @ [row]"]
    obtain rows where "write_lines ls (old_line_num + 1, new_line_num) (f @ [row]) =
            (Inr (old_line_num + 1 + int (length (filter (\<lambda>l. startswith l ''+'') ls)),
                  new_line_num + int (length (filter (\<lambda>l. startswith l ''-'') ls))),
             (f @ [row]) @ rows)" and "length rows = length ls" by blast
    with step p np show ?thesis
      by (intro exI [of _ "row # rows"]) simp
  next
    assume m: "startswith l ''-''"
    then have nm: "\<not> startswith l ''@@''" "\<not> startswith l ''+''"
      by (cases l; auto simp: startswith_def)+
    obtain row where step:
      "line_step l (old_line_num, new_line_num) = Inr ((old_line_num, new_line_num + 1), row)"
      using m nm by (simp add: line_step_def)
    from Cons.IH [OF rest, of old_line_num "new_line_num + 1" "f @ [row]"]
    obtain rows where "write_lines ls (old_line_num, new_line_num + 1) (f @ [row]) =
            (Inr (old_line_num + int (length (filter (\<lambda>l. startswith l ''+'') ls)),
                  new_line_num + 1 + int (length (filter (\<lambda>l. startswith l ''-'') ls))),
             (f @ [row]) @ rows)" and "length rows = length ls" by blast
    with step m nm show ?thesis
      by (intro exI [of _ "row # rows"]) simp
  qed
qed

subsection \<open>Splitting a header line\<close>

lemma split_not_Nil: "split sep s \<noteq> []"
  by (induction s) simp_all

lemma split_no_sep: "sep \<notin> set a \<Longrightarrow> split sep a = [a]"
  by (induction a) auto

lemma split_append_sep: "sep \<notin> set a \<Longrightarrow> split sep (a @ sep # r) = a # split sep r"
  by (induction a) auto

lemma start_number_token:
  assumes "CHR '','' \<notin> set a" and "m \<noteq> CHR '',''"
    and "cnt = [] \<or> (\<exists>x. cnt = CHR '','' # x)"
  shows "start_number (m # a @ cnt) =
           (case py_int a of None \<Rightarrow> Inl (ValueError (int_error_message a)) | Some v \<Rightarrow> Inr v)"
proof -
  from assms have "\<exists>ws. split CHR '','' (m # a @ cnt) = (m # a) # ws"
  proof (elim disjE exE)
    assume "cnt = []"
    with assms(1,2) have "split CHR '','' (m # a @ cnt) = [m # a]"
      by (simp add: split_no_sep)
    then show ?thesis by simp
  next
    fix x assume "cnt = CHR '','' # x"
    with assms(1,2) have "split CHR '','' (m # a @ cnt) = (m # a) # split CHR '','' x"
      using split_append_sep [of "CHR '',''" "m # a" x] by simp
    then show ?thesis by simp
  qed
  then obtain ws where eq: "split CHR '','' (m # a @ cnt) = (m # a) # ws" ..
  show ?thesis
    unfolding start_number_def eq by (simp add: getitem_def split: option.splits)
qed

lemma header_parts:
  assumes "CHR '' '' \<notin> set p1" and "CHR '' '' \<notin> set p2"
    and "t = [] \<or> (\<exists>y. t = CHR '' '' # y)"
  shows "\<exists>ws. split CHR '' '' (''@@ '' @ p1 @ '' '' @ p2 @ t) = ''@@'' # p1 # p2 # ws"
proof -
  have 1: "split CHR '' '' (''@@ '' @ p1 @ '' '' @ p2 @ t)
             = ''@@'' # split CHR '' '' (p1 @ '' '' @ p2 @ t)"
    by simp
  have 2: "split CHR '' '' (p1 @ '' '' @ p2 @ t) = p1 # split CHR '' '' (p2 @ t)"
    using split_append_sep [OF assms(1), of "p2 @ t"] by simp
  from assms(3) have "\<exists>ws. split CHR '' '' (p2 @ t) = p2 # ws"
  proof (elim disjE exE)
    assume "t = []"
    with assms(2) show ?thesis by (simp add: split_no_sep)
  next
    fix y assume "t = CHR '' '' # y"
    with split_append_sep [OF assms(2), of y] show ?thesis by simp
  qed
  with 1 2 show ?thesis by auto
qed

text \<open>A header \<^verbatim>\<open>@@ -a[,count] +b[,count][ trailer]\<close>: the result is decided by the two
  start fields \<open>a\<close> and \<open>b\<close>.\<close>

lemma parse_header_shape:
  assumes a: "CHR '' '' \<notin> set a" "CHR '','' \<notin> set a"
    and b: "CHR '' '' \<notin> set b" "CHR '','' \<notin> set b"
    and c1: "c1 = [] \<or> (\<exists>x. c1 = CHR '','' # x \<and> CHR '' '' \<notin> set x)"
    and c2: "c2 = [] \<or> (\<exists>x. c2 = CHR '','' # x \<and> CHR '' '' \<notin> set x)"
    and t: "t = [] \<or> (\<exists>y. t = CHR '' '' # y)"
  shows "parse_header (''@@ -'' @ a @ c1 @ '' +'' @ b @ c2 @ t) =
           (case py_int a of
              None \<Rightarrow> Inl (ValueError (int_error_message a))
            | Some x \<Rightarrow>
                (case py_int b of
                   None \<Rightarrow> Inl (ValueError (int_error_message b))
                 | Some y \<Rightarrow> Inr (x, y)))"
proof -
  let ?p1 = "CHR ''-'' # a @ c1" and ?p2 = "CHR ''+'' # b @ c2"
  from a c1 have p1: "CHR '' '' \<notin> set ?p1" by auto
  from b c2 have p2: "CHR '' '' \<notin> set ?p2" by auto
  from header_parts [OF p1 p2 t] obtain ws
    where "split CHR '' '' (''@@ '' @ ?p1 @ '' '' @ ?p2 @ t) = ''@@'' # ?p1 # ?p2 # ws" ..
  then have parts:
    "split CHR '' '' (''@@ -'' @ a @ c1 @ '' +'' @ b @ c2 @ t) = ''@@'' # ?p1 # ?p2 # ws"
    by simp
  from c1 have c1': "c1 = [] \<or> (\<exists>x. c1 = CHR '','' # x)" by blast
  from c2 have c2': "c2 = [] \<or> (\<exists>x. c2 = CHR '','' # x)" by blast
  have s1: "start_number ?p1 = (case py_int a of None \<Rightarrow> Inl (ValueError (int_error_message a)) | Some v \<Rightarrow> Inr v)"
    by (rule start_number_token [OF a(2) _ c1']) simp
  have s2: "start_number ?p2 = (case py_int b of None \<Rightarrow> Inl (ValueError (int_error_message b)) | Some v \<Rightarrow> Inr v)"
    by (rule start_number_token [OF b(2) _ c2']) simp
  show ?thesis
    unfolding parse_header_def Let_def parts
    by (simp add: getitem_def s1 s2 split: option.splits)
qed

subsection \<open>The loop over the files\<close>

lemma write_entries_append:
  "write_entries iter one (xs @ ys) f =
     (case write_entries iter one xs f of
        (Some e, f') \<Rightarrow> (Some e, f')
      | (None, f') \<Rightarrow> write_entries iter one ys f')"
  by (induction xs arbitrary: f) (simp_all split: prod.splits option.splits)

subsection \<open>The blocks of an added and of a deleted file\<close>

lemma write_plus_lines_rows:
  \<open>write_plus_lines i ls f =
     f @ map (\<lambda>k. ''<span class="line-num">'' @ str_int (i + int k) @ ''</span> + ''
                    @ html_escape (strip (ls ! k)) @ [CHR 0x0A]) [0..<length ls]\<close>
proof (induction ls arbitrary: i f)
  case Nil
  show ?case by simp
next
  case (Cons l ls)
  show ?case
    by (simp add: Cons.IH map_upt_Suc add.assoc del: upt_Suc)
qed

lemma write_minus_lines_rows:
  \<open>write_minus_lines i ls f =
     f @ map (\<lambda>k. ''<span class="line-num">'' @ str_int (i + int k) @ ''</span> - ''
                    @ html_escape (strip (ls ! k)) @ [CHR 0x0A]) [0..<length ls]\<close>
proof (induction ls arbitrary: i f)
  case Nil
  show ?case by simp
next
  case (Cons l ls)
  show ?case
    by (simp add: Cons.IH map_upt_Suc add.assoc del: upt_Suc)
qed

subsection \<open>The difference count\<close>









subsection \<open>What the header parser reads\<close>

lemma start_number_hd:
  "start_number p =
     (case py_int (drop 1 (hd (split CHR '','' p))) of
        None \<Rightarrow> Inl (ValueError (int_error_message (drop 1 (hd (split CHR '','' p)))))
      | Some v \<Rightarrow> Inr v)"
proof -
  have "getitem (split CHR '','' p) 0 = Inr (hd (split CHR '','' p))"
    using split_not_Nil [of "CHR '',''" p] by (simp add: getitem_def hd_conv_nth)
  then show ?thesis
    by (simp add: start_number_def)
qed

text \<open>The outcome of the parser in terms of the fields it reads, in the order in which
  the source reads them.\<close>

lemma parse_header_fields:
  "parse_header h =
     (if length (split CHR '' '' h) \<le> 1 then Inl IndexError
      else case py_int (drop 1 (hd (split CHR '','' (split CHR '' '' h ! 1)))) of
             None \<Rightarrow>
               Inl (ValueError
                 (int_error_message (drop 1 (hd (split CHR '','' (split CHR '' '' h ! 1))))))
           | Some x \<Rightarrow>
               if length (split CHR '' '' h) \<le> 2 then Inl IndexError
               else case py_int (drop 1 (hd (split CHR '','' (split CHR '' '' h ! 2)))) of
                      None \<Rightarrow>
                        Inl (ValueError
                          (int_error_message
                            (drop 1 (hd (split CHR '','' (split CHR '' '' h ! 2))))))
                    | Some y \<Rightarrow> Inr (x, y))"
proof (cases "length (split CHR '' '' h) \<le> 1")
  case True
  then have "getitem (split CHR '' '' h) 1 = Inl IndexError"
    by (simp add: getitem_def)
  with True show ?thesis
    by (simp add: parse_header_def)
next
  case one: False
  then have g1: "getitem (split CHR '' '' h) 1 = Inr (split CHR '' '' h ! 1)"
    by (simp add: getitem_def)
  show ?thesis
  proof (cases "length (split CHR '' '' h) \<le> 2")
    case True
    then have g2: "getitem (split CHR '' '' h) 2 = Inl IndexError"
      by (simp add: getitem_def)
    show ?thesis
      unfolding parse_header_def Let_def g1 g2
      using one True by (simp add: start_number_hd split: option.splits)
  next
    case two: False
    then have g2: "getitem (split CHR '' '' h) 2 = Inr (split CHR '' '' h ! 2)"
      by (simp add: getitem_def)
    show ?thesis
      unfolding parse_header_def Let_def g1 g2
      using one two by (simp add: start_number_hd split: option.splits)
  qed
qed

lemma parse_header_Inr_iff:
  "parse_header h = Inr (a, b) \<longleftrightarrow>
     2 < length (split CHR '' '' h)
     \<and> py_int (drop 1 (hd (split CHR '','' (split CHR '' '' h ! 1)))) = Some a
     \<and> py_int (drop 1 (hd (split CHR '','' (split CHR '' '' h ! 2)))) = Some b"
  unfolding parse_header_fields by (auto split: option.splits)

subsection \<open>What \<^verbatim>\<open>int\<close> accepts\<close>

lemma parse_digits_plain:
  assumes "CHR ''_'' \<notin> set r"
  shows "parse_digits acc r =
           (if \<forall>c \<in> set r. isdigit c
            then Some (foldl (\<lambda>v c. 10 * v + digit_val c) acc r) else None)"
  using assms by (induction acc r rule: parse_digits.induct) auto

lemma py_int_plain:
  assumes "\<forall>c \<in> set tok. \<not> int_space c \<and> c \<noteq> CHR ''+'' \<and> c \<noteq> CHR ''-'' \<and> c \<noteq> CHR ''_''"
  shows "py_int tok =
           (if tok \<noteq> [] \<and> (\<forall>c \<in> set tok. isdigit c)
            then Some (foldl (\<lambda>v c. 10 * v + digit_val c) 0 tok) else None)"
proof (cases tok)
  case Nil
  then show ?thesis
    by (simp add: py_int_def startswith_def)
next
  case (Cons c r)
  from assms Cons have c: "\<not> int_space c" "c \<noteq> CHR ''+''" "c \<noteq> CHR ''-''"
    and r: "CHR ''_'' \<notin> set r" by auto
  have ne: "tok \<noteq> []" using Cons by simp
  with assms have "\<not> int_space (last tok)" using last_in_set [of tok] by blast
  moreover have "hd (rev tok) = last tok" using ne by (simp add: hd_rev)
  ultimately have "\<not> int_space (hd (rev tok))" by simp
  then have "dropWhile int_space (rev tok) = rev tok"
    by (simp only: dropWhile_eq_self_iff simp_thms)
  moreover have "dropWhile int_space tok = tok"
    using Cons c by simp
  ultimately have t: "rev (dropWhile int_space (rev (dropWhile int_space tok))) = tok"
    by simp
  have sign: "\<not> startswith tok ''-''" "\<not> startswith tok ''+''"
    using Cons c by (simp_all add: startswith_def)
  have "py_int tok = (if isdigit c then parse_digits (digit_val c) r else None)"
    unfolding py_int_def t Let_def using sign Cons by (simp add: option.map_ident)
  then show ?thesis
    using Cons by (simp add: parse_digits_plain [OF r])
qed

section \<open>The claims\<close>

subsection \<open>C1\<close>

text \<open>
  C1 (as amended). In both loops over the lines of an edited file, after lines that
  raised nothing: a line that starts with \<^verbatim>\<open>+\<close> writes one row in the column
  \<^verbatim>\<open>Old Version\<close> (class \<^verbatim>\<open>removed\<close>, sign \<^verbatim>\<open>-\<close>) that shows the old-side counter,
  and advances only the old-side counter by one; a line that starts with \<^verbatim>\<open>-\<close>
  writes one row in the column \<^verbatim>\<open>New Version\<close> (class \<^verbatim>\<open>added\<close>, sign \<^verbatim>\<open>+\<close>) that
  shows the new-side counter, and advances only the new-side counter by one. Nothing
  is said here about a line of any other kind, nor about which start number of a
  header seeds which counter.
\<close>

theorem C1_markers_and_counters:
  assumes wl: "wl = write_lines \<or> wl = write_lines_two"
    and pre: "wl pre c0 f0 = (Inr (old_line_num, new_line_num), f)"
  shows \<open>(startswith line ''+'' \<longrightarrow>
            wl (pre @ [line]) c0 f0 =
              (Inr (old_line_num + 1, new_line_num),
               f @ [''<tr><td class="removed"><pre><span class="line-num">''
                      @ str_int old_line_num @ ''</span> - '' @ html_escape (drop 1 line)
                      @ ''</pre></td><td></td></tr>'']))
       \<and> (startswith line ''-'' \<longrightarrow>
            wl (pre @ [line]) c0 f0 =
              (Inr (old_line_num, new_line_num + 1),
               f @ [''<tr><td></td><td class="added"><pre><span class="line-num">''
                      @ str_int new_line_num @ ''</span> + '' @ html_escape (drop 1 line)
                      @ ''</pre></td></tr>'']))\<close>
proof -
  from wl have eq: "wl = write_lines" by (rule wl_cases)
  from pre have pre': "write_lines pre c0 f0 = (Inr (old_line_num, new_line_num), f)"
    by (simp add: eq)
  have plus: "\<not> startswith line ''@@''" if "startswith line ''+''"
    using that by (cases line) (auto simp: startswith_def)
  have minus: "\<not> startswith line ''@@'' \<and> \<not> startswith line ''+''" if "startswith line ''-''"
    using that by (cases line) (auto simp: startswith_def)
  show ?thesis
    unfolding eq write_lines_snoc [OF pre']
    using plus minus by (auto simp: line_step_def)
qed

theorem C1_markers_and_counters_witness:
  \<open>write_lines [''@@ -10,2 +10,3 @@'', ''-old line''] (0, 0) [] =
      (Inr (10, 11),
       [''<tr><td colspan="2"><hr></td></tr>'',
        ''<tr><td></td><td class="added"><pre><span class="line-num">10</span> + old line</pre></td></tr>''])
   \<and> startswith ''+new line A'' ''+''
   \<and> write_lines ([''@@ -10,2 +10,3 @@'', ''-old line''] @ [''+new line A'']) (0, 0) [] =
      (Inr (11, 11),
       [''<tr><td colspan="2"><hr></td></tr>'',
        ''<tr><td></td><td class="added"><pre><span class="line-num">10</span> + old line</pre></td></tr>'',
        ''<tr><td class="removed"><pre><span class="line-num">10</span> - new line A</pre></td><td></td></tr>''])\<close>
proof -
  have pre: \<open>write_lines [''@@ -10,2 +10,3 @@'', ''-old line''] (0, 0) [] =
      (Inr (10, 11),
       [''<tr><td colspan="2"><hr></td></tr>'',
        ''<tr><td></td><td class="added"><pre><span class="line-num">10</span> + old line</pre></td></tr>''])\<close>
    by code_simp
  have plus: "startswith ''+new line A'' ''+''"
    by code_simp
  note step = C1_markers_and_counters [OF disjI1 [OF refl] pre, THEN conjunct1, THEN mp, OF plus]
  have ev: \<open>(Inr (10 + 1, 11 :: int) :: exn + int \<times> int,
       [''<tr><td colspan="2"><hr></td></tr>'',
        ''<tr><td></td><td class="added"><pre><span class="line-num">10</span> + old line</pre></td></tr>'']
       @ [''<tr><td class="removed"><pre><span class="line-num">''
            @ str_int 10 @ ''</span> - '' @ html_escape (drop 1 ''+new line A'')
            @ ''</pre></td><td></td></tr>'']) =
      (Inr (11, 11),
       [''<tr><td colspan="2"><hr></td></tr>'',
        ''<tr><td></td><td class="added"><pre><span class="line-num">10</span> + old line</pre></td></tr>'',
        ''<tr><td class="removed"><pre><span class="line-num">10</span> - new line A</pre></td><td></td></tr>''])\<close>
    by code_simp
  from step ev have step':
    \<open>write_lines ([''@@ -10,2 +10,3 @@'', ''-old line''] @ [''+new line A'']) (0, 0) [] =
      (Inr (11, 11),
       [''<tr><td colspan="2"><hr></td></tr>'',
        ''<tr><td></td><td class="added"><pre><span class="line-num">10</span> + old line</pre></td></tr>'',
        ''<tr><td class="removed"><pre><span class="line-num">10</span> - new line A</pre></td><td></td></tr>''])\<close>
    by (rule trans)
  show ?thesis by (rule conjI [OF pre conjI [OF plus step']])
qed

text \<open>
  The claim as written fails: after the header \<^verbatim>\<open>@@ -10 +10 @@\<close> the line \<^verbatim>\<open>+x\<close>
  is written in the old column, and it is the old-side counter that moves to 11, while
  the new-side counter stays at 10.
\<close>

theorem C1_plus_line_counterexample:
  \<open>write_lines [''@@ -10 +10 @@'', ''+x''] (0, 0) [] =
      (Inr (11, 10),
       [''<tr><td colspan="2"><hr></td></tr>'',
        ''<tr><td class="removed"><pre><span class="line-num">10</span> - x</pre></td><td></td></tr>''])
   \<and> fst (write_lines [''@@ -10 +10 @@'', ''+x''] (0, 0) []) \<noteq> Inr (10, 11)\<close>
  by code_simp

subsection \<open>C2\<close>

text \<open>
  C2 (as amended). For the hunk \<^verbatim>\<open>@@ -10,2 +10,3 @@\<close> followed by the removed line
  \<^verbatim>\<open>-old line\<close> and the two added lines \<^verbatim>\<open>+new line A\<close> and \<^verbatim>\<open>+new line B\<close>,
  without the context line, each branch reports the difference count 3 and writes,
  after the separator row, exactly three rows in order: a row in the new column
  numbered 10 with \<^verbatim>\<open>old line\<close>, a row in the old column numbered 10 with
  \<^verbatim>\<open>new line A\<close>, and a row in the old column numbered 11 with \<^verbatim>\<open>new line B\<close>.
\<close>

theorem C2_scenario_without_context_line:
  \<open>write_edited iter
      (''@@ -10,2 +10,3 @@'' @ [CHR 0x0A] @ ''-old line''
         @ [CHR 0x0A] @ ''+new line A'' @ [CHR 0x0A] @ ''+new line B'' @ [CHR 0x0A]) [] =
     (None,
      [count_paragraph 3,
       functions_paragraph (iter {}),
       ''<table><tr><th>Old Version</th><th>New Version</th></tr>'',
       ''<tr><td colspan="2"><hr></td></tr>'',
       ''<tr><td></td><td class="added"><pre><span class="line-num">10</span> + old line</pre></td></tr>'',
       ''<tr><td class="removed"><pre><span class="line-num">10</span> - new line A</pre></td><td></td></tr>'',
       ''<tr><td class="removed"><pre><span class="line-num">11</span> - new line B</pre></td><td></td></tr>'',
       ''</table>''])
   \<and> write_edited_two iter
      (''@@ -10,2 +10,3 @@'' @ [CHR 0x0A] @ ''-old line''
         @ [CHR 0x0A] @ ''+new line A'' @ [CHR 0x0A] @ ''+new line B'' @ [CHR 0x0A]) [] =
     (None,
      [count_paragraph 3,
       functions_paragraph (iter {}),
       ''<table><tr><th>Old Version</th><th>New Version</th></tr>'',
       ''<tr><td colspan="2"><hr></td></tr>'',
       ''<tr><td></td><td class="added"><pre><span class="line-num">10</span> + old line</pre></td></tr>'',
       ''<tr><td class="removed"><pre><span class="line-num">10</span> - new line A</pre></td><td></td></tr>'',
       ''<tr><td class="removed"><pre><span class="line-num">11</span> - new line B</pre></td><td></td></tr>'',
       ''</table>''])\<close>
  by code_simp

text \<open>
  The scenario as written: the difference count reported is 3, and the context line
  raises \<^verbatim>\<open>AttributeError\<close> right after the separator row, so that no row of the
  hunk is written at all.
\<close>

theorem C2_scenario_counterexample:
  \<open>write_edited sorted_list_of_set
      (''@@ -10,2 +10,3 @@'' @ [CHR 0x0A] @ '' context line'' @ [CHR 0x0A] @ ''-old line''
         @ [CHR 0x0A] @ ''+new line A'' @ [CHR 0x0A] @ ''+new line B'' @ [CHR 0x0A]) [] =
     (Some AttributeError,
      [count_paragraph 3,
       functions_paragraph [],
       ''<table><tr><th>Old Version</th><th>New Version</th></tr>'',
       ''<tr><td colspan="2"><hr></td></tr>''])\<close>
  by code_simp

subsection \<open>C3\<close>

text \<open>
  C3 (as amended). A start field of a header line is its second or its third field
  (the fields are separated by single spaces), up to the first comma and without its
  first character. In both loops, a header line (one that starts with \<^verbatim>\<open>@@\<close>) with
  a start field that is missing or that \<^verbatim>\<open>int\<close> rejects ends the loop with the
  exception of the parser: the rows written before it stay in the file, and no later
  line of the file is read. The exception is the first one in the order in which the
  source reads the fields: \<^verbatim>\<open>IndexError\<close> for a missing field, and for a rejected
  field the \<^verbatim>\<open>ValueError\<close> of \<^verbatim>\<open>int\<close>, whose message quotes that field (its
  \<^verbatim>\<open>repr\<close>, cut after 200 characters), not the line.
\<close>

theorem C3_malformed_header_stops_the_loop:
  assumes wl: "wl = write_lines \<or> wl = write_lines_two"
    and pre: "wl pre c0 f0 = (Inr c, f)"
    and header: "startswith h ''@@''"
    and bad: "\<not> (2 < length (split CHR '' '' h)
                \<and> py_int (drop 1 (hd (split CHR '','' (split CHR '' '' h ! 1)))) \<noteq> None
                \<and> py_int (drop 1 (hd (split CHR '','' (split CHR '' '' h ! 2)))) \<noteq> None)"
  shows "wl (pre @ h # post) c0 f0 =
           (Inl (if length (split CHR '' '' h) \<le> 1 then IndexError
                 else if py_int (drop 1 (hd (split CHR '','' (split CHR '' '' h ! 1)))) = None
                 then ValueError
                        (int_error_message (drop 1 (hd (split CHR '','' (split CHR '' '' h ! 1)))))
                 else if length (split CHR '' '' h) \<le> 2 then IndexError
                 else ValueError
                        (int_error_message (drop 1 (hd (split CHR '','' (split CHR '' '' h ! 2)))))),
            f)"
proof -
  from wl have eq: "wl = write_lines" by (rule wl_cases)
  from pre have pre': "write_lines pre c0 f0 = (Inr c, f)" by (simp add: eq)
  have "parse_header h =
      Inl (if length (split CHR '' '' h) \<le> 1 then IndexError
           else if py_int (drop 1 (hd (split CHR '','' (split CHR '' '' h ! 1)))) = None
           then ValueError
                  (int_error_message (drop 1 (hd (split CHR '','' (split CHR '' '' h ! 1)))))
           else if length (split CHR '' '' h) \<le> 2 then IndexError
           else ValueError
                  (int_error_message (drop 1 (hd (split CHR '','' (split CHR '' '' h ! 2))))))"
    unfolding parse_header_fields using bad by (auto split: option.splits)
  then have "line_step h c =
      Inl (if length (split CHR '' '' h) \<le> 1 then IndexError
           else if py_int (drop 1 (hd (split CHR '','' (split CHR '' '' h ! 1)))) = None
           then ValueError
                  (int_error_message (drop 1 (hd (split CHR '','' (split CHR '' '' h ! 1)))))
           else if length (split CHR '' '' h) \<le> 2 then IndexError
           else ValueError
                  (int_error_message (drop 1 (hd (split CHR '','' (split CHR '' '' h ! 2))))))"
    by (simp only: line_step_header [OF header] sum.case)
  then show ?thesis
    by (simp only: eq write_lines_append pre' prod.case sum.case write_lines.simps)
qed

theorem C3_malformed_header_witness:
  \<open>write_lines [''@@ -1 +1 @@'', ''+a''] (0, 0) [] =
      (Inr (2, 1),
       [''<tr><td colspan="2"><hr></td></tr>'',
        ''<tr><td class="removed"><pre><span class="line-num">1</span> - a</pre></td><td></td></tr>''])
   \<and> startswith ''@@ -x,2 +10,2 @@'' ''@@''
   \<and> py_int ''x'' = None
   \<and> write_lines ([''@@ -1 +1 @@'', ''+a''] @ ''@@ -x,2 +10,2 @@'' # [''+b'']) (0, 0) [] =
      (Inl (ValueError (''invalid literal for int() with base 10: '' @ [CHR 0x27] @ ''x''
                          @ [CHR 0x27])),
       [''<tr><td colspan="2"><hr></td></tr>'',
        ''<tr><td class="removed"><pre><span class="line-num">1</span> - a</pre></td><td></td></tr>''])\<close>
proof -
  have pre: \<open>write_lines [''@@ -1 +1 @@'', ''+a''] (0, 0) [] =
      (Inr (2, 1),
       [''<tr><td colspan="2"><hr></td></tr>'',
        ''<tr><td class="removed"><pre><span class="line-num">1</span> - a</pre></td><td></td></tr>''])\<close>
    by code_simp
  have header: "startswith ''@@ -x,2 +10,2 @@'' ''@@''"
    by code_simp
  have rejected: "py_int ''x'' = None"
    by code_simp
  have bad:
    "\<not> (2 < length (split CHR '' '' ''@@ -x,2 +10,2 @@'')
        \<and> py_int (drop 1 (hd (split CHR '','' (split CHR '' '' ''@@ -x,2 +10,2 @@'' ! 1)))) \<noteq> None
        \<and> py_int (drop 1 (hd (split CHR '','' (split CHR '' '' ''@@ -x,2 +10,2 @@'' ! 2)))) \<noteq> None)"
    by code_simp
  note stop = C3_malformed_header_stops_the_loop
    [OF disjI1 [OF refl] pre header bad, of "[''+b'']"]
  have stopped:
    \<open>write_lines ([''@@ -1 +1 @@'', ''+a''] @ ''@@ -x,2 +10,2 @@'' # [''+b'']) (0, 0) [] =
      (Inl (ValueError (''invalid literal for int() with base 10: '' @ [CHR 0x27] @ ''x''
                          @ [CHR 0x27])),
       [''<tr><td colspan="2"><hr></td></tr>'',
        ''<tr><td class="removed"><pre><span class="line-num">1</span> - a</pre></td><td></td></tr>''])\<close>
    unfolding stop by code_simp
  show ?thesis by (rule conjI [OF pre conjI [OF header conjI [OF rejected stopped]]])
qed

text \<open>
  The claim as written fails three times over. The rows of the hunk before the bad
  header are in the file; the message of the exception quotes the field \<^verbatim>\<open>x\<close>, not
  the line; and a count field that is no number raises nothing.
\<close>

theorem C3_partial_output_counterexample:
  \<open>write_diff_to_html sorted_list_of_set True
      [\<lparr>diff = ''@@ -1 +1 @@'' @ [CHR 0x0A] @ ''+a'' @ [CHR 0x0A] @ ''@@ -x,2 +10,2 @@''
                 @ [CHR 0x0A] @ ''+b'',
        file_name = ''a.c'', file_status = '''', file_content = ''''\<rparr>] =
     (Some (ValueError (''invalid literal for int() with base 10: '' @ [CHR 0x27] @ ''x''
                          @ [CHR 0x27])),
      page_head @
      [file_heading ''a.c'',
       count_paragraph 2,
       functions_paragraph [],
       ''<table><tr><th>Old Version</th><th>New Version</th></tr>'',
       ''<tr><td colspan="2"><hr></td></tr>'',
       ''<tr><td class="removed"><pre><span class="line-num">1</span> - a</pre></td><td></td></tr>''])
   \<and> parse_header ''@@ -10,x +10,y @@'' = Inr (10, 10)\<close>
  by code_simp

subsection \<open>C4\<close>

text \<open>
  C4 (as amended). In a run over several files, the exception raised by one file ends
  the run: the files before it are in the output, the output of the failing file up to
  the exception stays, no later file is processed, the closing tags are not written,
  and the exception is the one caught (and printed) by the handler of
  \<^verbatim>\<open>write_diff_to_html\<close> itself.
\<close>

theorem C4_exception_ends_the_run:
  assumes pre: "write_entries iter oneArgument pre page_head = (None, f)"
    and raised: "write_entry iter oneArgument d f = (Some e, f')"
  shows "write_diff_to_html iter oneArgument (pre @ d # post) = (Some e, f')"
  using assms by (simp add: write_diff_to_html_def write_entries_append)

theorem C4_exception_ends_the_run_witness:
  \<open>write_entries sorted_list_of_set True
      [\<lparr>diff = '''', file_name = ''n.c'', file_status = ''A'', file_content = ''x''\<rparr>] page_head =
     (None,
      page_head @
      [file_heading ''n.c'',
       ''<p><b>File added: n.c</b></p>'',
       ''<table><tr><th>New Version</th></tr><tr><td class="added"><pre>'',
       ''<span class="line-num">1</span> + x'' @ [CHR 0x0A],
       ''</pre></td></tr></table>''])
   \<and> write_entry sorted_list_of_set True
      \<lparr>diff = ''@@ -x,2 +10,2 @@'', file_name = ''a.c'', file_status = '''', file_content = ''''\<rparr>
      (page_head @
       [file_heading ''n.c'',
        ''<p><b>File added: n.c</b></p>'',
        ''<table><tr><th>New Version</th></tr><tr><td class="added"><pre>'',
        ''<span class="line-num">1</span> + x'' @ [CHR 0x0A],
        ''</pre></td></tr></table>'']) =
     (Some (ValueError (''invalid literal for int() with base 10: '' @ [CHR 0x27] @ ''x'' @ [CHR 0x27])),
      page_head @
      [file_heading ''n.c'',
       ''<p><b>File added: n.c</b></p>'',
       ''<table><tr><th>New Version</th></tr><tr><td class="added"><pre>'',
       ''<span class="line-num">1</span> + x'' @ [CHR 0x0A],
       ''</pre></td></tr></table>'',
       file_heading ''a.c'',
       count_paragraph 0,
       functions_paragraph [],
       ''<table><tr><th>Old Version</th><th>New Version</th></tr>''])
   \<and> write_diff_to_html sorted_list_of_set True
      ([\<lparr>diff = '''', file_name = ''n.c'', file_status = ''A'', file_content = ''x''\<rparr>]
       @ \<lparr>diff = ''@@ -x,2 +10,2 @@'', file_name = ''a.c'', file_status = '''', file_content = ''''\<rparr>
       # [\<lparr>diff = ''@@ -1 +1 @@'', file_name = ''b.c'', file_status = '''', file_content = ''''\<rparr>]) =
     (Some (ValueError (''invalid literal for int() with base 10: '' @ [CHR 0x27] @ ''x'' @ [CHR 0x27])),
      page_head @
      [file_heading ''n.c'',
       ''<p><b>File added: n.c</b></p>'',
       ''<table><tr><th>New Version</th></tr><tr><td class="added"><pre>'',
       ''<span class="line-num">1</span> + x'' @ [CHR 0x0A],
       ''</pre></td></tr></table>'',
       file_heading ''a.c'',
       count_paragraph 0,
       functions_paragraph [],
       ''<table><tr><th>Old Version</th><th>New Version</th></tr>''])\<close>
proof -
  have pre: \<open>write_entries sorted_list_of_set True
      [\<lparr>diff = '''', file_name = ''n.c'', file_status = ''A'', file_content = ''x''\<rparr>] page_head =
     (None,
      page_head @
      [file_heading ''n.c'',
       ''<p><b>File added: n.c</b></p>'',
       ''<table><tr><th>New Version</th></tr><tr><td class="added"><pre>'',
       ''<span class="line-num">1</span> + x'' @ [CHR 0x0A],
       ''</pre></td></tr></table>''])\<close>
    by code_simp
  have raised: \<open>write_entry sorted_list_of_set True
      \<lparr>diff = ''@@ -x,2 +10,2 @@'', file_name = ''a.c'', file_status = '''', file_content = ''''\<rparr>
      (page_head @
       [file_heading ''n.c'',
        ''<p><b>File added: n.c</b></p>'',
        ''<table><tr><th>New Version</th></tr><tr><td class="added"><pre>'',
        ''<span class="line-num">1</span> + x'' @ [CHR 0x0A],
        ''</pre></td></tr></table>'']) =
     (Some (ValueError (''invalid literal for int() with base 10: '' @ [CHR 0x27] @ ''x'' @ [CHR 0x27])),
      page_head @
      [file_heading ''n.c'',
       ''<p><b>File added: n.c</b></p>'',
       ''<table><tr><th>New Version</th></tr><tr><td class="added"><pre>'',
       ''<span class="line-num">1</span> + x'' @ [CHR 0x0A],
       ''</pre></td></tr></table>'',
       file_heading ''a.c'',
       count_paragraph 0,
       functions_paragraph [],
       ''<table><tr><th>Old Version</th><th>New Version</th></tr>''])\<close>
    by code_simp
  note run = C4_exception_ends_the_run [OF pre raised,
    of "[\<lparr>diff = ''@@ -1 +1 @@'', file_name = ''b.c'', file_status = '''', file_content = ''''\<rparr>]"]
  show ?thesis by (rule conjI [OF pre conjI [OF raised run]])
qed

text \<open>
  The claim as written fails: the first file has a bad header, and the second file,
  whose diff is well formed, does not appear in the output.
\<close>

theorem C4_later_file_lost_counterexample:
  \<open>write_diff_to_html sorted_list_of_set True
      [\<lparr>diff = ''@@ -x,2 +10,2 @@'', file_name = ''a.c'', file_status = '''', file_content = ''''\<rparr>,
       \<lparr>diff = ''@@ -1 +1 @@'' @ [CHR 0x0A] @ ''-b'', file_name = ''b.c'', file_status = '''',
        file_content = ''''\<rparr>] =
     (Some (ValueError (''invalid literal for int() with base 10: '' @ [CHR 0x27] @ ''x'' @ [CHR 0x27])),
      page_head @
      [file_heading ''a.c'',
       count_paragraph 0,
       functions_paragraph [],
       ''<table><tr><th>Old Version</th><th>New Version</th></tr>''])
   \<and> file_heading ''b.c'' \<notin> set (snd (write_diff_to_html sorted_list_of_set True
      [\<lparr>diff = ''@@ -x,2 +10,2 @@'', file_name = ''a.c'', file_status = '''', file_content = ''''\<rparr>,
       \<lparr>diff = ''@@ -1 +1 @@'' @ [CHR 0x0A] @ ''-b'', file_name = ''b.c'', file_status = '''',
        file_content = ''''\<rparr>]))\<close>
  by code_simp

subsection \<open>C5\<close>

text \<open>
  C5 (as amended). Whatever the diff text of the entry, the file content is written as
  one block of rows, one per line of the content (stripped of the white space around
  it), numbered 1, 2, 3 and so on. When \<^verbatim>\<open>oneArgument\<close> is true, status \<^verbatim>\<open>A\<close>
  gives the block of added rows (\<^verbatim>\<open>File added\<close>, class \<^verbatim>\<open>added\<close>, sign \<^verbatim>\<open>+\<close>) and
  status \<^verbatim>\<open>D\<close> the block of removed rows (\<^verbatim>\<open>File deleted\<close>, class \<^verbatim>\<open>removed\<close>,
  sign \<^verbatim>\<open>-\<close>). When \<^verbatim>\<open>oneArgument\<close> is false it is the other way round: status
  \<^verbatim>\<open>D\<close> gives the block of added rows and status \<^verbatim>\<open>A\<close> the block of removed rows.
\<close>

theorem C5_added_and_deleted_files:
  \<open>write_entry iter True
      \<lparr>diff = t, file_name = name, file_status = ''A'', file_content = content\<rparr> f =
     (None,
      f @ [file_heading name,
           ''<p><b>File added: '' @ html_escape name @ ''</b></p>'',
           ''<table><tr><th>New Version</th></tr><tr><td class="added"><pre>'']
        @ map (\<lambda>k. ''<span class="line-num">'' @ str_int (1 + int k) @ ''</span> + ''
                     @ html_escape (strip (splitlines content ! k)) @ [CHR 0x0A])
            [0..<length (splitlines content)]
        @ [''</pre></td></tr></table>''])
   \<and> write_entry iter True
      \<lparr>diff = t, file_name = name, file_status = ''D'', file_content = content\<rparr> f =
     (None,
      f @ [file_heading name,
           ''<p><b>File deleted: '' @ html_escape name @ ''</b></p>'',
           ''<table><tr><th>Old Version</th></tr><tr><td class="removed"><pre>'']
        @ map (\<lambda>k. ''<span class="line-num">'' @ str_int (1 + int k) @ ''</span> - ''
                     @ html_escape (strip (splitlines content ! k)) @ [CHR 0x0A])
            [0..<length (splitlines content)]
        @ [''</pre></td></tr></table>''])
   \<and> write_entry iter False
      \<lparr>diff = t, file_name = name, file_status = ''D'', file_content = content\<rparr> f =
     (None,
      f @ [file_heading name,
           ''<p><b>File added: '' @ html_escape name @ ''</b></p>'',
           ''<table><tr><th>New Version</th></tr><tr><td class="added"><pre>'']
        @ map (\<lambda>k. ''<span class="line-num">'' @ str_int (1 + int k) @ ''</span> + ''
                     @ html_escape (strip (splitlines content ! k)) @ [CHR 0x0A])
            [0..<length (splitlines content)]
        @ [''</pre></td></tr></table>''])
   \<and> write_entry iter False
      \<lparr>diff = t, file_name = name, file_status = ''A'', file_content = content\<rparr> f =
     (None,
      f @ [file_heading name,
           ''<p><b>File deleted: '' @ html_escape name @ ''</b></p>'',
           ''<table><tr><th>Old Version</th></tr><tr><td class="removed"><pre>'']
        @ map (\<lambda>k. ''<span class="line-num">'' @ str_int (1 + int k) @ ''</span> - ''
                     @ html_escape (strip (splitlines content ! k)) @ [CHR 0x0A])
            [0..<length (splitlines content)]
        @ [''</pre></td></tr></table>''])\<close>
  by (simp add: write_entry_def write_file_added_def write_file_deleted_def
      write_plus_lines_rows write_minus_lines_rows)

text \<open>
  The claim as written fails when \<^verbatim>\<open>oneArgument\<close> is false: a file of status \<^verbatim>\<open>A\<close>
  is written as the block of removed rows.
\<close>

theorem C5_two_commit_added_counterexample:
  \<open>write_entry sorted_list_of_set False
      \<lparr>diff = '''', file_name = ''n.c'', file_status = ''A'',
       file_content = ''x'' @ [CHR 0x0A] @ '' y''\<rparr> [] =
     (None,
      [file_heading ''n.c'',
       ''<p><b>File deleted: n.c</b></p>'',
       ''<table><tr><th>Old Version</th></tr><tr><td class="removed"><pre>'',
       ''<span class="line-num">1</span> - x'' @ [CHR 0x0A],
       ''<span class="line-num">2</span> - y'' @ [CHR 0x0A],
       ''</pre></td></tr></table>''])\<close>
  by code_simp

subsection \<open>C6\<close>



subsection \<open>C7\<close>

text \<open>
  C7. The header \<^verbatim>\<open>@@ -1,2 +1,2 @@ def foo\<close> of the claim gives the empty set: the
  pattern asks for a backslash character right after the keyword. With that backslash
  in the line the name is found.
\<close>

theorem C7_no_name_from_def_foo:
  "extract_function_names ''@@ -1,2 +1,2 @@ def foo'' = {}
   \<and> extract_function_names (''@@ -1,2 +1,2 @@ def'' @ [CHR 0x5C] @ ''foo'') = {''foo''}"
  by code_simp

subsection \<open>C8\<close>

text \<open>
  C8 (as amended). Lines with a marker that come before any header are rendered like
  any others, with both counters starting from 0: for lines that each start with
  \<^verbatim>\<open>+\<close> or \<^verbatim>\<open>-\<close>, both loops raise nothing, write one row per line, and leave
  the old-side counter at the number of \<^verbatim>\<open>+\<close> lines and the new-side counter at the
  number of \<^verbatim>\<open>-\<close> lines.
\<close>

theorem C8_lines_before_any_header:
  assumes wl: "wl = write_lines \<or> wl = write_lines_two"
    and marked: "\<forall>l \<in> set ls. startswith l ''+'' \<or> startswith l ''-''"
  shows "\<exists>rows. wl ls (0, 0) f =
            (Inr (int (length (filter (\<lambda>l. startswith l ''+'') ls)),
                  int (length (filter (\<lambda>l. startswith l ''-'') ls))),
             f @ rows)
          \<and> length rows = length ls"
  using write_lines_marked [OF marked, of 0 0 f] wl_cases [OF wl] by simp

theorem C8_lines_before_any_header_witness:
  \<open>startswith ''+x'' ''+'' \<and> startswith ''-y'' ''-''
   \<and> (\<exists>rows. write_lines [''+x'', ''-y''] (0, 0) [] =
            (Inr (int (length (filter (\<lambda>l. startswith l ''+'') [''+x'', ''-y''])),
                  int (length (filter (\<lambda>l. startswith l ''-'') [''+x'', ''-y'']))),
             [] @ rows)
          \<and> length rows = length [''+x'', ''-y''])
   \<and> write_lines [''+x'', ''-y''] (0, 0) [] =
       (Inr (1, 1),
        [''<tr><td class="removed"><pre><span class="line-num">0</span> - x</pre></td><td></td></tr>'',
         ''<tr><td></td><td class="added"><pre><span class="line-num">0</span> + y</pre></td></tr>''])\<close>
proof -
  have p: "startswith ''+x'' ''+''" and m: "startswith ''-y'' ''-''"
    by code_simp+
  then have marked: "\<forall>l \<in> set [''+x'', ''-y'']. startswith l ''+'' \<or> startswith l ''-''"
    by simp
  note rows = C8_lines_before_any_header [OF disjI1 [OF refl] marked, of "[]"]
  have run: \<open>write_lines [''+x'', ''-y''] (0, 0) [] =
       (Inr (1, 1),
        [''<tr><td class="removed"><pre><span class="line-num">0</span> - x</pre></td><td></td></tr>'',
         ''<tr><td></td><td class="added"><pre><span class="line-num">0</span> + y</pre></td></tr>''])\<close>
    by code_simp
  show ?thesis by (rule conjI [OF p conjI [OF m conjI [OF rows run]]])
qed

text \<open>
  The claim as written fails: the diff text \<^verbatim>\<open>+x\<close>, with no header at all, raises
  nothing, and the line is written as a row with the number 0.
\<close>

theorem C8_no_header_counterexample:
  \<open>write_edited sorted_list_of_set ''+x'' [] =
     (None,
      [count_paragraph 1,
       functions_paragraph [],
       ''<table><tr><th>Old Version</th><th>New Version</th></tr>'',
       ''<tr><td class="removed"><pre><span class="line-num">0</span> - x</pre></td><td></td></tr>'',
       ''</table>''])\<close>
  by code_simp

subsection \<open>C9\<close>

text \<open>
  C9. For every run in which each file is an edited one (its status is neither
  \<^verbatim>\<open>A\<close> nor \<^verbatim>\<open>D\<close>), the file written and the exception caught are the same
  whether \<^verbatim>\<open>oneArgument\<close> is true or false: the branch of lines 77 to 108 and the
  branch of lines 123 to 154 compute the same function of the diff text.
\<close>

theorem C9_modes_agree_on_edited_files:
  assumes "\<forall>d \<in> set diffs. file_status d \<noteq> ''A'' \<and> file_status d \<noteq> ''D''"
  shows "write_diff_to_html iter True diffs = write_diff_to_html iter False diffs"
proof -
  have entry: "write_entry iter True d f = write_entry iter False d f"
    if "file_status d \<noteq> ''A''" and "file_status d \<noteq> ''D''" for d f
    using that by (simp add: write_entry_def write_edited_two_eq)
  from assms have "write_entries iter True diffs f = write_entries iter False diffs f" for f
  proof (induction diffs arbitrary: f)
    case Nil
    show ?case by simp
  next
    case (Cons d ds)
    then have "write_entry iter True d f = write_entry iter False d f"
      by (simp add: entry)
    with Cons show ?case by (simp split: prod.splits option.splits)
  qed
  then show ?thesis by (simp add: write_diff_to_html_def)
qed

theorem C9_modes_agree_witness:
  "file_status \<lparr>diff = ''@@ -3 +4 @@'' @ [CHR 0x0A] @ ''-a'' @ [CHR 0x0A] @ ''+b'',
                 file_name = ''m.c'', file_status = '''', file_content = ''''\<rparr> \<noteq> ''A''
   \<and> file_status \<lparr>diff = ''@@ -3 +4 @@'' @ [CHR 0x0A] @ ''-a'' @ [CHR 0x0A] @ ''+b'',
                 file_name = ''m.c'', file_status = '''', file_content = ''''\<rparr> \<noteq> ''D''
   \<and> write_diff_to_html sorted_list_of_set True
        [\<lparr>diff = ''@@ -3 +4 @@'' @ [CHR 0x0A] @ ''-a'' @ [CHR 0x0A] @ ''+b'',
          file_name = ''m.c'', file_status = '''', file_content = ''''\<rparr>]
     = write_diff_to_html sorted_list_of_set False
        [\<lparr>diff = ''@@ -3 +4 @@'' @ [CHR 0x0A] @ ''-a'' @ [CHR 0x0A] @ ''+b'',
          file_name = ''m.c'', file_status = '''', file_content = ''''\<rparr>]"
  using C9_modes_agree_on_edited_files
    [of "[\<lparr>diff = ''@@ -3 +4 @@'' @ [CHR 0x0A] @ ''-a'' @ [CHR 0x0A] @ ''+b'',
           file_name = ''m.c'', file_status = '''', file_content = ''''\<rparr>]"
        sorted_list_of_set]
  by simp

subsection \<open>C10\<close>

text \<open>
  C10 (as amended). The parser of a header line reads only two start fields, which it
  finds by position: the second and the third field of the line (the fields are
  separated by single spaces), each up to its first comma and without its first
  character, whatever that character is. For a line that starts with \<^verbatim>\<open>@@\<close>, the
  loop body raises if and only if one of the two start fields is missing or is
  rejected by \<^verbatim>\<open>int\<close>; a field with no sign, no underscore and no white space is
  accepted exactly when it is a non-empty run of decimal digits, and then it has its
  decimal value. For a header \<^verbatim>\<open>@@ -a[,count] +b[,count][ trailer]\<close> the start fields
  are \<open>a\<close> and \<open>b\<close>: the outcome is decided by them alone, whatever the counts and
  the trailer are, and in both loops the whole result (exception, counters, file) is
  the one of the header \<^verbatim>\<open>@@ -a +b\<close>.
\<close>

theorem C10_header_reads_only_the_starts:
  assumes wl: "wl = write_lines \<or> wl = write_lines_two"
    and a: "CHR '' '' \<notin> set a" "CHR '','' \<notin> set a"
    and b: "CHR '' '' \<notin> set b" "CHR '','' \<notin> set b"
    and c1: "c1 = [] \<or> (\<exists>x. c1 = CHR '','' # x \<and> CHR '' '' \<notin> set x)"
    and c2: "c2 = [] \<or> (\<exists>x. c2 = CHR '','' # x \<and> CHR '' '' \<notin> set x)"
    and t: "t = [] \<or> (\<exists>y. t = CHR '' '' # y)"
    and plain: "\<forall>ch \<in> set tok. \<not> int_space ch \<and> ch \<noteq> CHR ''+'' \<and> ch \<noteq> CHR ''-''
                  \<and> ch \<noteq> CHR ''_''"
  shows \<open>(startswith line ''@@'' \<longrightarrow>
            ((\<exists>e. line_step line c = Inl e) \<longleftrightarrow>
             \<not> (2 < length (split CHR '' '' line)
                \<and> py_int (drop 1 (hd (split CHR '','' (split CHR '' '' line ! 1)))) \<noteq> None
                \<and> py_int (drop 1 (hd (split CHR '','' (split CHR '' '' line ! 2)))) \<noteq> None)))
       \<and> py_int tok =
           (if tok \<noteq> [] \<and> (\<forall>ch \<in> set tok. isdigit ch)
            then Some (foldl (\<lambda>v ch. 10 * v + digit_val ch) 0 tok) else None)
       \<and> line_step (''@@ -'' @ a @ c1 @ '' +'' @ b @ c2 @ t) c =
           (case py_int a of
              None \<Rightarrow> Inl (ValueError (int_error_message a))
            | Some x \<Rightarrow>
                (case py_int b of
                   None \<Rightarrow> Inl (ValueError (int_error_message b))
                 | Some y \<Rightarrow> Inr ((x, y), ''<tr><td colspan="2"><hr></td></tr>'')))
       \<and> wl (pre @ (''@@ -'' @ a @ c1 @ '' +'' @ b @ c2 @ t) # post) c0 f =
           wl (pre @ (''@@ -'' @ a @ '' +'' @ b) # post) c0 f\<close>
proof -
  have full: "startswith (''@@ -'' @ a @ c1 @ '' +'' @ b @ c2 @ t) ''@@''"
    and short: "startswith (''@@ -'' @ a @ '' +'' @ b) ''@@''"
    by (simp_all add: startswith_def)
  have ph_short: "parse_header (''@@ -'' @ a @ '' +'' @ b) =
      (case py_int a of
         None \<Rightarrow> Inl (ValueError (int_error_message a))
       | Some x \<Rightarrow>
           (case py_int b of
              None \<Rightarrow> Inl (ValueError (int_error_message b))
            | Some y \<Rightarrow> Inr (x, y)))"
    using parse_header_shape [OF a b, of "[]" "[]" "[]"] by simp
  have same: "line_step (''@@ -'' @ a @ c1 @ '' +'' @ b @ c2 @ t) c' =
      line_step (''@@ -'' @ a @ '' +'' @ b) c'" for c'
    by (simp only: line_step_header [OF full] line_step_header [OF short]
        parse_header_shape [OF a b c1 c2 t] ph_short)
  have first: "(\<exists>e. line_step line c = Inl e) \<longleftrightarrow>
      \<not> (2 < length (split CHR '' '' line)
         \<and> py_int (drop 1 (hd (split CHR '','' (split CHR '' '' line ! 1)))) \<noteq> None
         \<and> py_int (drop 1 (hd (split CHR '','' (split CHR '' '' line ! 2)))) \<noteq> None)"
    if header: "startswith line ''@@''"
  proof -
    have "(\<exists>e. line_step line c = Inl e) \<longleftrightarrow> (\<exists>e. parse_header line = Inl e)"
      by (simp add: line_step_header [OF header] split: sum.splits)
    also have "\<dots> \<longleftrightarrow> \<not> (\<exists>x y. parse_header line = Inr (x, y))"
      by (cases "parse_header line") auto
    also have "\<dots> \<longleftrightarrow>
      \<not> (2 < length (split CHR '' '' line)
         \<and> py_int (drop 1 (hd (split CHR '','' (split CHR '' '' line ! 1)))) \<noteq> None
         \<and> py_int (drop 1 (hd (split CHR '','' (split CHR '' '' line ! 2)))) \<noteq> None)"
      by (simp only: parse_header_Inr_iff) auto
    finally show ?thesis .
  qed
  have second: "py_int tok =
      (if tok \<noteq> [] \<and> (\<forall>ch \<in> set tok. isdigit ch)
       then Some (foldl (\<lambda>v ch. 10 * v + digit_val ch) 0 tok) else None)"
    using plain by (rule py_int_plain)
  have third: \<open>line_step (''@@ -'' @ a @ c1 @ '' +'' @ b @ c2 @ t) c =
           (case py_int a of
              None \<Rightarrow> Inl (ValueError (int_error_message a))
            | Some x \<Rightarrow>
                (case py_int b of
                   None \<Rightarrow> Inl (ValueError (int_error_message b))
                 | Some y \<Rightarrow> Inr ((x, y), ''<tr><td colspan="2"><hr></td></tr>'')))\<close>
    unfolding line_step_header [OF full] parse_header_shape [OF a b c1 c2 t]
    by (simp split: option.splits)
  have fourth: "wl (pre @ (''@@ -'' @ a @ c1 @ '' +'' @ b @ c2 @ t) # post) c0 f =
           wl (pre @ (''@@ -'' @ a @ '' +'' @ b) # post) c0 f"
    unfolding wl_cases [OF wl] by (rule write_lines_same_step) (rule same)
  from first second third fourth show ?thesis by blast
qed

theorem C10_header_reads_only_the_starts_witness:
  \<open>CHR '' '' \<notin> set ''x'' \<and> CHR '','' \<notin> set ''x''
   \<and> CHR '' '' \<notin> set ''10'' \<and> CHR '','' \<notin> set ''10''
   \<and> py_int ''x'' = None
   \<and> py_int ''10'' = Some 10
   \<and> line_step ''@@ -x,2 +10,2 @@'' (3, 4) =
       Inl (ValueError (''invalid literal for int() with base 10: '' @ [CHR 0x27] @ ''x''
                          @ [CHR 0x27]))
   \<and> line_step ''@@ -10,x +10 @@'' (3, 4) =
       Inr ((10, 10), ''<tr><td colspan="2"><hr></td></tr>'')
   \<and> write_lines ([''+p''] @ ''@@ -10,x +10 @@'' # [''-q'']) (0, 0) [] =
       write_lines ([''+p''] @ ''@@ -10 +10'' # [''-q'']) (0, 0) []\<close>
proof -
  have spx: "CHR '' '' \<notin> set ''x''" and cox: "CHR '','' \<notin> set ''x''"
    and sp: "CHR '' '' \<notin> set ''10''" and co: "CHR '','' \<notin> set ''10''"
    by simp_all
  have cx: "'',x'' = [] \<or> (\<exists>x. '',x'' = CHR '','' # x \<and> CHR '' '' \<notin> set x)"
    and c2: "'',2'' = [] \<or> (\<exists>x. '',2'' = CHR '','' # x \<and> CHR '' '' \<notin> set x)"
    and c0: "([] :: string) = [] \<or> (\<exists>x. [] = CHR '','' # x \<and> CHR '' '' \<notin> set x)"
    and t: "'' @@'' = [] \<or> (\<exists>y. '' @@'' = CHR '' '' # y)"
    by simp_all
  have plain_x: "\<forall>ch \<in> set ''x''. \<not> int_space ch \<and> ch \<noteq> CHR ''+'' \<and> ch \<noteq> CHR ''-''
      \<and> ch \<noteq> CHR ''_''"
    and plain_10: "\<forall>ch \<in> set ''10''. \<not> int_space ch \<and> ch \<noteq> CHR ''+'' \<and> ch \<noteq> CHR ''-''
      \<and> ch \<noteq> CHR ''_''"
    by code_simp+
  note good = C10_header_reads_only_the_starts [OF disjI1 [OF refl] sp co sp co cx c0 t plain_10]
  note bad = C10_header_reads_only_the_starts [OF disjI1 [OF refl] spx cox sp co c2 c2 t plain_x]
  have no_digits:
    "(if ''x'' \<noteq> [] \<and> (\<forall>ch \<in> set ''x''. isdigit ch)
      then Some (foldl (\<lambda>v ch. 10 * v + digit_val ch) 0 ''x'') else None) = None"
    and ten:
    "(if ''10'' \<noteq> [] \<and> (\<forall>ch \<in> set ''10''. isdigit ch)
      then Some (foldl (\<lambda>v ch. 10 * v + digit_val ch) 0 ''10'') else None) = Some 10"
    by code_simp+
  from bad [THEN conjunct2, THEN conjunct1] no_digits
  have rejected: "py_int ''x'' = None"
    by (rule trans)
  from good [THEN conjunct2, THEN conjunct1] ten
  have accepted: "py_int ''10'' = Some 10"
    by (rule trans)
  have message: "int_error_message ''x'' =
      ''invalid literal for int() with base 10: '' @ [CHR 0x27] @ ''x'' @ [CHR 0x27]"
    by code_simp
  from bad [THEN conjunct2, THEN conjunct2, THEN conjunct1, of "(3, 4)"] rejected message
  have raised: \<open>line_step ''@@ -x,2 +10,2 @@'' (3, 4) =
       Inl (ValueError (''invalid literal for int() with base 10: '' @ [CHR 0x27] @ ''x''
                          @ [CHR 0x27]))\<close>
    by simp
  from good [THEN conjunct2, THEN conjunct2, THEN conjunct1, of "(3, 4)"] accepted
  have step: \<open>line_step ''@@ -10,x +10 @@'' (3, 4) =
       Inr ((10, 10), ''<tr><td colspan="2"><hr></td></tr>'')\<close>
    by simp
  from good [THEN conjunct2, THEN conjunct2, THEN conjunct2,
    of "[''+p'']" "[''-q'']" "(0, 0)" "[]"]
  have rows: "write_lines ([''+p''] @ ''@@ -10,x +10 @@'' # [''-q'']) (0, 0) [] =
       write_lines ([''+p''] @ ''@@ -10 +10'' # [''-q'']) (0, 0) []"
    by simp
  show ?thesis
    by (rule conjI [OF spx conjI [OF cox conjI [OF sp conjI [OF co conjI [OF rejected
          conjI [OF accepted conjI [OF raised conjI [OF step rows]]]]]]]])
qed

text \<open>
  The claim as written fails: in \<^verbatim>\<open>@@  -1 +2 @@\<close> (two spaces after the first
  \<^verbatim>\<open>@@\<close>) and in \<^verbatim>\<open>@@-1,2 +3,4 @@\<close> (no space after it) the tokens after \<^verbatim>\<open>-\<close>
  and \<^verbatim>\<open>+\<close> are numbers, and the loop body raises all the same, because the fields
  that the parser reads by position are the empty string in the former and \<^verbatim>\<open>@\<close> in
  the latter.
\<close>

theorem C10_numeric_tokens_counterexample:
  \<open>startswith ''@@  -1 +2 @@'' ''@@'' \<and> startswith ''@@-1,2 +3,4 @@'' ''@@''
   \<and> py_int ''1'' = Some 1 \<and> py_int ''2'' = Some 2 \<and> py_int ''3'' = Some 3
   \<and> line_step ''@@  -1 +2 @@'' (0, 0) =
       Inl (ValueError (''invalid literal for int() with base 10: '' @ [CHR 0x27, CHR 0x27]))
   \<and> line_step ''@@-1,2 +3,4 @@'' (0, 0) =
       Inl (ValueError (''invalid literal for int() with base 10: '' @ [CHR 0x27] @ ''@''
                          @ [CHR 0x27]))\<close>
  by code_simp

end
